theory Spec2Isabelle
  imports Main
begin

section \<open>String operations of the host language\<close>

text \<open>
  Strings are character lists. The sources use four operations of the JavaScript
  string and array libraries: \<^verbatim>\<open>toLowerCase\<close>, \<^verbatim>\<open>includes\<close>, \<^verbatim>\<open>split\<close> and \<^verbatim>\<open>join\<close>.

  The library's \<^verbatim>\<open>toLowerCase\<close> follows the Unicode case mappings: it is not limited to
  the letters \<^verbatim>\<open>A\<close>..\<^verbatim>\<open>Z\<close>, and it is not computed character by character. It is no
  part of the sources, so the contract below takes it as an argument, \<open>lower\<close>, and
  what is proved of the search filter is proved for every such function. The function
  \<open>toLowerCase\<close> defined here lowers the letters \<^verbatim>\<open>A\<close>..\<^verbatim>\<open>Z\<close> and leaves every other
  character as it is. That is the comparison the flag \<^verbatim>\<open>i\<close> of a regular expression
  makes against a pattern of ASCII letters; on other text it stands in for the
  library's function where a closed term is wanted, and the theorems about the
  component and about the environment helpers do not depend on what it does there.
\<close>

definition lowerChar :: "char \<Rightarrow> char" where
  "lowerChar c =
     (case map_of (zip ''ABCDEFGHIJKLMNOPQRSTUVWXYZ'' ''abcdefghijklmnopqrstuvwxyz'') c of
        None \<Rightarrow> c
      | Some l \<Rightarrow> l)"

definition toLowerCase :: "string \<Rightarrow> string" where
  "toLowerCase s = map lowerChar s"

text \<open>\<^verbatim>\<open>s.startsWith(t)\<close>: \<open>t\<close> is an initial part of \<open>s\<close>.\<close>

fun startsWith :: "string \<Rightarrow> string \<Rightarrow> bool" where
  "startsWith s [] = True"
| "startsWith [] (c # cs) = False"
| "startsWith (x # xs) (c # cs) = (x = c \<and> startsWith xs cs)"

text \<open>\<^verbatim>\<open>s.includes(t)\<close>: \<open>t\<close> occurs in \<open>s\<close> at some position.\<close>

fun str_includes :: "string \<Rightarrow> string \<Rightarrow> bool" where
  "str_includes [] t = (t = [])"
| "str_includes (x # xs) t = (startsWith (x # xs) t \<or> str_includes xs t)"

text \<open>
  \<^verbatim>\<open>s.split(sep)\<close> for a one-character separator: \<open>n\<close> separators give \<open>n + 1\<close>
  pieces, empty ones included; the empty string gives one empty piece. The result is
  never the empty list, so the first case of the inner \<open>case\<close> is never taken.
\<close>

fun split :: "char \<Rightarrow> string \<Rightarrow> string list" where
  "split sep [] = [[]]"
| "split sep (c # cs) =
     (if c = sep then [] # split sep cs
      else (case split sep cs of [] \<Rightarrow> [[c]] | p # ps \<Rightarrow> (c # p) # ps))"

text \<open>\<^verbatim>\<open>xs.join(sep)\<close>.\<close>

fun join :: "string \<Rightarrow> string list \<Rightarrow> string" where
  "join sep [] = []"
| "join sep [x] = x"
| "join sep (x # y # ys) = x @ sep @ join sep (y # ys)"

section \<open>Records of the host language\<close>

text \<open>
  A \<^verbatim>\<open>Record<string, V>\<close> is an ordinary object. It is modelled as the list of its own
  enumerable properties in enumeration order, as \<^verbatim>\<open>Object.entries\<close> returns them; an
  object holds a key once, so the keys of a record are distinct.
\<close>

type_synonym 'v Record = "(string \<times> 'v) list"

text \<open>
  A property read \<^verbatim>\<open>r[k]\<close> looks among the own properties first and then at the
  prototype of the object. For an ordinary object that is \<^verbatim>\<open>Object.prototype\<close>, whose
  members every such object answers to: its built-in functions, each with a \<^verbatim>\<open>name\<close>
  of its own, and the accessor \<^verbatim>\<open>__proto__\<close>, which gives the prototype object. A name
  found in neither place reads as \<^verbatim>\<open>undefined\<close>.
\<close>

datatype Builtin = BuiltinFunction string | ObjectPrototype

definition Object_prototype :: "string \<Rightarrow> Builtin option" where
  "Object_prototype k =
     (if k = ''constructor'' then Some (BuiltinFunction ''Object'')
      else if k \<in> set [''hasOwnProperty'', ''isPrototypeOf'', ''propertyIsEnumerable'',
                        ''toLocaleString'', ''toString'', ''valueOf'', ''__defineGetter__'',
                        ''__defineSetter__'', ''__lookupGetter__'', ''__lookupSetter__'']
      then Some (BuiltinFunction k)
      else if k = ''__proto__'' then Some ObjectPrototype
      else None)"

datatype 'v Property = Own 'v | Inherited Builtin | Undefined

definition Object_keys :: "'v Record \<Rightarrow> string list" where
  "Object_keys r = map fst r"

definition Object_entries :: "'v Record \<Rightarrow> (string \<times> 'v) list" where
  "Object_entries r = r"

definition prop_get :: "'v Record \<Rightarrow> string \<Rightarrow> 'v Property" where
  "prop_get r k =
     (case map_of r k of
        Some v \<Rightarrow> Own v
      | None \<Rightarrow> (case Object_prototype k of Some b \<Rightarrow> Inherited b | None \<Rightarrow> Undefined))"

definition wf_Record :: "'v Record \<Rightarrow> bool" where
  "wf_Record r = distinct (map fst r)"

section \<open>The language switcher's contract (contract.ts)\<close>

record LocaleData =
  name :: string
  nativeName :: string
  flag :: string
  rtl :: bool
  dateFormat :: string
  numberFormat :: string

record LanguageItem =
  code :: string
  label :: string
  flag :: string
  isActive :: bool

text \<open>
  The label and the flag of the trigger are declared strings. They hold what the reads
  \<^verbatim>\<open>.nativeName\<close>, \<^verbatim>\<open>.name\<close> and \<^verbatim>\<open>.flag\<close> on the value found for the current
  locale give, which is \<^verbatim>\<open>undefined\<close>, here \<open>None\<close>, where that value has no such
  property.
\<close>

record Trigger =
  label :: "string option"
  flag :: "string option"
  isOpen :: bool

record Search =
  placeholder :: string
  "value" :: string

record LanguageView =
  trigger :: Trigger
  search :: Search
  items :: "LanguageItem list"
  filteredItems :: "LanguageItem list"

text \<open>
  The configuration. The two required fields are options as well: the function tests
  them for absence (\<^verbatim>\<open>!locales\<close>, \<^verbatim>\<open>!currentLocale\<close>) before it uses them.
\<close>

record LanguageSwitcherConfig =
  locales :: "LocaleData Record option"
  currentLocale :: "string option"
  searchValue :: "string option"
  isOpen :: "bool option"
  triggerLabel :: "string option"
  searchPlaceholder :: "string option"

text \<open>A thrown \<^verbatim>\<open>Error\<close> with its message.\<close>

datatype Error = Error string

text \<open>\<^verbatim>\<open>a || b\<close> on strings: \<open>a\<close> unless it is empty.\<close>

definition or_else :: "string \<Rightarrow> string \<Rightarrow> string" where
  "or_else a b = (if a \<noteq> [] then a else b)"

text \<open>
  The same on values that may be \<^verbatim>\<open>undefined\<close>, and the three reads on the value found
  for the current locale. A built-in function has a \<^verbatim>\<open>name\<close> and neither of the other
  two properties; the prototype object has none of the three. (The function reads
  nothing from \<^verbatim>\<open>undefined\<close>: it has thrown before.)
\<close>

definition or_undefined :: "string option \<Rightarrow> string option \<Rightarrow> string option" where
  "or_undefined a b = (case a of None \<Rightarrow> b | Some s \<Rightarrow> if s \<noteq> [] then Some s else b)"

definition read_nativeName :: "LocaleData Property \<Rightarrow> string option" where
  "read_nativeName v = (case v of Own d \<Rightarrow> Some (nativeName d) | _ \<Rightarrow> None)"

definition read_name :: "LocaleData Property \<Rightarrow> string option" where
  "read_name v =
     (case v of
        Own d \<Rightarrow> Some (name d)
      | Inherited (BuiltinFunction n) \<Rightarrow> Some n
      | _ \<Rightarrow> None)"

definition read_flag :: "LocaleData Property \<Rightarrow> string option" where
  "read_flag v = (case v of Own d \<Rightarrow> Some (LocaleData.flag d) | _ \<Rightarrow> None)"

definition toItem :: "string \<Rightarrow> string \<times> LocaleData \<Rightarrow> LanguageItem" where
  "toItem cur e =
     (case e of (c, data) \<Rightarrow>
        \<lparr>code = c,
         label = or_else (nativeName data) (name data),
         flag = LocaleData.flag data,
         isActive = (c = cur)\<rparr>)"

text \<open>
  The predicate of the filter and the function itself, with the library's
  \<^verbatim>\<open>toLowerCase\<close> as the argument \<open>lower\<close>.
\<close>

definition matchesSearch :: "(string \<Rightarrow> string) \<Rightarrow> string \<Rightarrow> LanguageItem \<Rightarrow> bool" where
  "matchesSearch lower sv item =
     (str_includes (lower (LanguageItem.label item)) (lower sv) \<or>
      str_includes (lower (code item)) (lower sv))"

definition buildLanguageViewWith ::
  "(string \<Rightarrow> string) \<Rightarrow> LanguageSwitcherConfig \<Rightarrow> Error + LanguageView"
where
  "buildLanguageViewWith lower config =
     (let sv = (case searchValue config of None \<Rightarrow> [] | Some s \<Rightarrow> s);
          op = (case LanguageSwitcherConfig.isOpen config of None \<Rightarrow> False | Some b \<Rightarrow> b);
          ph = (case searchPlaceholder config of None \<Rightarrow> ''Search'' | Some p \<Rightarrow> p)
      in
      case locales config of
        None \<Rightarrow> Inl (Error ''Locales configuration is required and cannot be empty'')
      | Some ls \<Rightarrow>
          if length (Object_keys ls) = 0
          then Inl (Error ''Locales configuration is required and cannot be empty'')
          else
            (case currentLocale config of
               None \<Rightarrow> Inl (Error ''Current locale is required'')
             | Some cur \<Rightarrow>
                 if cur = [] then Inl (Error ''Current locale is required'')
                 else
                   (let currentLocaleData = prop_get ls cur
                    in if currentLocaleData = Undefined
                       then Inl (Error (''Current locale \"'' @ cur @
                                        ''\" not found in locales configuration''))
                       else
                         let its = map (toItem cur) (Object_entries ls);
                             fits = (if sv \<noteq> [] then filter (matchesSearch lower sv) its else its)
                         in Inr \<lparr>trigger =
                                   \<lparr>label = or_undefined (read_nativeName currentLocaleData)
                                                           (read_name currentLocaleData),
                                    flag = read_flag currentLocaleData,
                                    isOpen = op\<rparr>,
                                 search = \<lparr>placeholder = ph, value = sv\<rparr>,
                                 items = its,
                                 filteredItems = fits\<rparr>)))"

text \<open>
  The function with the lowering of this theory. Validation, the items and the trigger
  do not depend on the lowering, only the filtered items under a search value do.
\<close>

definition buildLanguageView :: "LanguageSwitcherConfig \<Rightarrow> Error + LanguageView" where
  "buildLanguageView config = buildLanguageViewWith toLowerCase config"

section \<open>Environment detection (browser.tsx)\<close>

text \<open>
  The globals a helper reads. Each may be undeclared (\<^verbatim>\<open>typeof x === 'undefined'\<close>),
  here \<open>None\<close>; reading an undeclared global throws a \<^verbatim>\<open>ReferenceError\<close>. Of the
  document only what \<^verbatim>\<open>hasTouch\<close> asks of its root element is kept: whether the
  two handler properties exist on it.
\<close>

record Element =
  has_ontouchstart :: bool
  has_onpointerdown :: bool

record Document =
  documentElement :: Element

record Navigator =
  userAgent :: string
  maxTouchPoints :: int
  platform :: string

record Window =
  innerWidth :: int
  innerHeight :: int

record Globals =
  window :: "Window option"
  document :: "Document option"
  navigator :: "Navigator option"

datatype TouchSupport = HasTouch | NoTouch

datatype MobileSupport = HasMobile | NoMobile

datatype BrowserName = Chrome | Edge | Safari | Firefox | Opera | Brave | Samsung | Unknown

datatype Exn = ReferenceError string

definition global_window :: "Globals \<Rightarrow> Exn + Window" where
  "global_window g =
     (case window g of None \<Rightarrow> Inl (ReferenceError ''window is not defined'') | Some w \<Rightarrow> Inr w)"

definition global_document :: "Globals \<Rightarrow> Exn + Document" where
  "global_document g =
     (case document g of None \<Rightarrow> Inl (ReferenceError ''document is not defined'') | Some d \<Rightarrow> Inr d)"

definition global_navigator :: "Globals \<Rightarrow> Exn + Navigator" where
  "global_navigator g =
     (case navigator g of None \<Rightarrow> Inl (ReferenceError ''navigator is not defined'') | Some n \<Rightarrow> Inr n)"

text \<open>Sequencing of steps that may throw, and \<^verbatim>\<open>try { ... } catch (error) { ... }\<close>.\<close>

definition bindE :: "Exn + 'a \<Rightarrow> ('a \<Rightarrow> Exn + 'b) \<Rightarrow> Exn + 'b" where
  "bindE m f = (case m of Inl e \<Rightarrow> Inl e | Inr v \<Rightarrow> f v)"

definition try_catch :: "Exn + 'a \<Rightarrow> (Exn \<Rightarrow> Exn + 'a) \<Rightarrow> Exn + 'a" where
  "try_catch body handler = (case body of Inl e \<Rightarrow> handler e | Inr v \<Rightarrow> Inr v)"

text \<open>
  \<^verbatim>\<open>hasTouch\<close>. The guard tests \<^verbatim>\<open>window\<close> and \<^verbatim>\<open>document\<close>; the body also reads
  \<^verbatim>\<open>navigator\<close>, inside the \<^verbatim>\<open>try\<close>. The handler's \<^verbatim>\<open>console.warn\<close> is not modelled.
\<close>

definition hasTouch :: "Globals \<Rightarrow> Exn + TouchSupport" where
  "hasTouch g =
     (if window g = None \<or> document g = None then Inr NoTouch
      else try_catch
        (bindE (global_document g) (\<lambda>doc.
           let hasTouchEvents = has_ontouchstart (documentElement doc);
               hasPointerEvents = has_onpointerdown (documentElement doc)
           in bindE (global_navigator g) (\<lambda>nav.
                let hasTouchPoints = (maxTouchPoints nav > 0)
                in Inr (if hasTouchEvents \<or> hasPointerEvents \<or> hasTouchPoints
                        then HasTouch else NoTouch))))
        (\<lambda>error. Inr NoTouch))"

text \<open>
  The two regular expressions of \<^verbatim>\<open>hasMobile\<close>, both with the flag \<^verbatim>\<open>i\<close>. The first is
  an alternation of literal words. In the second, \<^verbatim>\<open>Android(?!.*Mobile)\<close> asks for an
  occurrence of the word that no \<^verbatim>\<open>Mobile\<close> follows on the same line (\<^verbatim>\<open>.\<close> does not
  match a line terminator).
\<close>

definition includes_ci :: "string \<Rightarrow> string \<Rightarrow> bool" where
  "includes_ci s w = str_includes (toLowerCase s) (toLowerCase w)"

definition mobileRegex_test :: "string \<Rightarrow> bool" where
  "mobileRegex_test ua =
     list_ex (includes_ci ua)
       [''Android'', ''webOS'', ''iPhone'', ''iPad'', ''iPod'', ''BlackBerry'', ''IEMobile'',
        ''Opera Mini'', ''Windows Phone'', ''Mobile'']"

definition lineTerminator :: "char \<Rightarrow> bool" where
  "lineTerminator c = (c = CHR 0x0A \<or> c = CHR 0x0D)"

fun android_not_mobile :: "string \<Rightarrow> bool" where
  "android_not_mobile [] = False"
| "android_not_mobile (x # xs) =
     ((startsWith (x # xs) ''android'' \<and>
       \<not> str_includes (takeWhile (\<lambda>c. \<not> lineTerminator c) (drop 7 (x # xs))) ''mobile'')
      \<or> android_not_mobile xs)"

definition tabletRegex_test :: "string \<Rightarrow> bool" where
  "tabletRegex_test ua =
     (includes_ci ua ''iPad'' \<or> android_not_mobile (toLowerCase ua) \<or> includes_ci ua ''Tablet'')"

definition hasMobile :: "Globals \<Rightarrow> Exn + MobileSupport" where
  "hasMobile g =
     (if window g = None \<or> navigator g = None then Inr NoMobile
      else try_catch
        (bindE (global_navigator g) (\<lambda>nav.
           let isMobileUA = mobileRegex_test (userAgent nav);
               isTablet = tabletRegex_test (userAgent nav)
           in bindE (global_window g) (\<lambda>win.
                let isNarrowViewport = (if innerWidth win \<noteq> 0 then innerWidth win \<le> 768 else False)
                in bindE (hasTouch g) (\<lambda>touch.
                     let isTouchDevice = (touch = HasTouch)
                     in Inr (if isMobileUA \<or> isTablet \<or> (isNarrowViewport \<and> isTouchDevice)
                             then HasMobile else NoMobile)))))
        (\<lambda>error. Inr NoMobile))"

text \<open>
  \<^verbatim>\<open>isUserAgent\<close>. Its argument is a string by type, so of the second guard only the
  test for the empty string is left.
\<close>

definition isUserAgent :: "Globals \<Rightarrow> string \<Rightarrow> Exn + bool" where
  "isUserAgent g agent =
     (if navigator g = None then Inr False
      else if agent = [] then Inr False
      else try_catch
        (bindE (global_navigator g) (\<lambda>nav.
           Inr (str_includes (toLowerCase (userAgent nav)) (toLowerCase agent))))
        (\<lambda>error. Inr False))"

definition getUserAgent :: "Globals \<Rightarrow> Exn + BrowserName" where
  "getUserAgent g =
     (if navigator g = None then Inr Unknown
      else try_catch
        (bindE (global_navigator g) (\<lambda>nav.
           let ua = toLowerCase (userAgent nav)
           in Inr (if str_includes ua ''brave'' then Brave
                   else if str_includes ua ''samsung'' then Samsung
                   else if str_includes ua ''opr'' \<or> str_includes ua ''opera'' then Opera
                   else if str_includes ua ''edg'' then Edge
                   else if str_includes ua ''chrome'' then Chrome
                   else if str_includes ua ''safari'' \<and> \<not> str_includes ua ''chrome'' then Safari
                   else if str_includes ua ''firefox'' then Firefox
                   else Unknown)))
        (\<lambda>error. Inr Unknown))"

section \<open>The language switcher component (LanguageSwitcher.tsx)\<close>

record LanguageSwitcherProps =
  locales :: "LocaleData Record"
  currentLocale :: string
  className :: "string option"

text \<open>The two \<^verbatim>\<open>useState\<close> cells of the component.\<close>

record SwitcherState =
  isOpen :: bool
  searchValue :: string

definition initialState :: SwitcherState where
  "initialState = \<lparr>isOpen = False, searchValue = []\<rparr>"

text \<open>
  A render builds the configuration from the props and the state and calls
  \<^verbatim>\<open>buildLanguageView\<close>, which may throw.
\<close>

definition configOf :: "LanguageSwitcherProps \<Rightarrow> SwitcherState \<Rightarrow> LanguageSwitcherConfig" where
  "configOf p s =
     \<lparr>LanguageSwitcherConfig.locales = Some (LanguageSwitcherProps.locales p),
      LanguageSwitcherConfig.currentLocale = Some (LanguageSwitcherProps.currentLocale p),
      LanguageSwitcherConfig.searchValue = Some (SwitcherState.searchValue s),
      LanguageSwitcherConfig.isOpen = Some (SwitcherState.isOpen s),
      LanguageSwitcherConfig.triggerLabel = None,
      LanguageSwitcherConfig.searchPlaceholder = Some ''Search''\<rparr>"

definition render :: "LanguageSwitcherProps \<Rightarrow> SwitcherState \<Rightarrow> Error + LanguageView" where
  "render p s = buildLanguageView (configOf p s)"

text \<open>
  \<^verbatim>\<open>handleClickOutside\<close>. An element is the set of the nodes it contains, itself
  included; \<^verbatim>\<open>containerRef.current\<close> is \<^verbatim>\<open>null\<close>, here \<open>None\<close>, while the container
  is not in the document.
\<close>

definition contains :: "'n set \<Rightarrow> 'n \<Rightarrow> bool" where
  "contains el target = (target \<in> el)"

definition handleClickOutside :: "'n set option \<Rightarrow> 'n \<Rightarrow> SwitcherState \<Rightarrow> SwitcherState" where
  "handleClickOutside containerRef_current target s =
     (case containerRef_current of
        None \<Rightarrow> s
      | Some el \<Rightarrow>
          if \<not> contains el target
          then s\<lparr>SwitcherState.isOpen := False, SwitcherState.searchValue := []\<rparr>
          else s)"

text \<open>
  The handlers are closures of a render: \<open>isOpen_r\<close> is the value of \<^verbatim>\<open>isOpen\<close> that the
  render saw, while the updater \<^verbatim>\<open>prev => !prev\<close> reads the state it is applied to.
\<close>

definition onToggle :: "bool \<Rightarrow> SwitcherState \<Rightarrow> SwitcherState" where
  "onToggle isOpen_r s =
     (let s1 = s\<lparr>SwitcherState.isOpen := \<not> SwitcherState.isOpen s\<rparr>
      in if isOpen_r then s1\<lparr>SwitcherState.searchValue := []\<rparr> else s1)"

definition onSearch :: "string \<Rightarrow> SwitcherState \<Rightarrow> SwitcherState" where
  "onSearch v s = s\<lparr>SwitcherState.searchValue := v\<rparr>"

text \<open>
  \<^verbatim>\<open>onSelect\<close>, in three parts: the segments of the path after the rewrite, the new
  path, and the handler, which returns the new state and the argument of
  \<^verbatim>\<open>router.push\<close> when it calls it.
\<close>

definition rewriteSegments :: "LocaleData Record \<Rightarrow> string \<Rightarrow> string \<Rightarrow> string list" where
  "rewriteSegments ls pathname c =
     (let segments = filter (\<lambda>seg. seg \<noteq> []) (split CHR ''/'' pathname)
      in if length segments > 0 \<and> segments ! 0 \<in> set (Object_keys ls)
         then segments[0 := c]
         else c # segments)"

definition newPath :: "LocaleData Record \<Rightarrow> string \<Rightarrow> string \<Rightarrow> string" where
  "newPath ls pathname c =
     (let segments = rewriteSegments ls pathname c
      in if length segments > 0 then ''/'' @ join ''/'' segments else ''/'' @ c)"

definition onSelect ::
  "LanguageSwitcherProps \<Rightarrow> string \<Rightarrow> string \<Rightarrow> SwitcherState \<Rightarrow> SwitcherState \<times> string option"
where
  "onSelect p pathname c s =
     (if c = LanguageSwitcherProps.currentLocale p
      then (s\<lparr>SwitcherState.isOpen := False, SwitcherState.searchValue := []\<rparr>, None)
      else (s\<lparr>SwitcherState.isOpen := False, SwitcherState.searchValue := []\<rparr>,
            Some (newPath (LanguageSwitcherProps.locales p) pathname c)))"

subsection \<open>The component in its document\<close>

text \<open>
  The world of one component instance: its props and the current pathname, its state,
  the \<^verbatim>\<open>mousedown\<close> listeners it has on the document, and what the effect left
  behind. Each run of the effect makes a new \<^verbatim>\<open>handleClickOutside\<close> closure, named by
  a number; \<open>cleanup\<close> is the closure the returned cleanup function removes, \<open>deps\<close>
  the value of \<^verbatim>\<open>[isOpen]\<close> the effect last ran with. \<open>pushed\<close> lists the arguments
  of the calls of \<^verbatim>\<open>router.push\<close>, oldest first.
\<close>

record World =
  props :: LanguageSwitcherProps
  pathname :: string
  state :: SwitcherState
  mounted :: bool
  listeners :: "nat list"
  cleanup :: "nat option"
  deps :: bool
  fresh :: nat
  pushed :: "string list"

definition addEventListener :: "nat \<Rightarrow> nat list \<Rightarrow> nat list" where
  "addEventListener l ls = (if l \<in> set ls then ls else ls @ [l])"

definition removeEventListener :: "nat \<Rightarrow> nat list \<Rightarrow> nat list" where
  "removeEventListener l ls = filter (\<lambda>k. k \<noteq> l) ls"

text \<open>The body of the effect, and the cleanup function of its last run.\<close>

definition effect :: "World \<Rightarrow> World" where
  "effect w =
     (let w1 = w\<lparr>deps := SwitcherState.isOpen (state w), fresh := fresh w + 1\<rparr>
      in if SwitcherState.isOpen (state w)
         then w1\<lparr>listeners := addEventListener (fresh w) (listeners w),
                 cleanup := Some (fresh w)\<rparr>
         else w1\<lparr>cleanup := None\<rparr>)"

definition runCleanup :: "World \<Rightarrow> World" where
  "runCleanup w =
     (case cleanup w of
        None \<Rightarrow> w
      | Some l \<Rightarrow> w\<lparr>listeners := removeEventListener l (listeners w), cleanup := None\<rparr>)"

definition unmount :: "World \<Rightarrow> World" where
  "unmount w = (runCleanup w)\<lparr>mounted := False\<rparr>"

text \<open>
  After an update the component renders again. A render that throws takes the
  component out of the document; otherwise the effect runs again when \<^verbatim>\<open>isOpen\<close>
  differs from its last dependency, after the cleanup of its last run.
\<close>

definition commit :: "World \<Rightarrow> World" where
  "commit w =
     (case render (props w) (state w) of
        Inl e \<Rightarrow> unmount w
      | Inr v \<Rightarrow>
          if deps w \<noteq> SwitcherState.isOpen (state w) then effect (runCleanup w) else w)"

definition mount :: "LanguageSwitcherProps \<Rightarrow> string \<Rightarrow> World" where
  "mount p path =
     (let w0 = \<lparr>props = p, pathname = path, state = initialState, mounted = False,
                listeners = [], cleanup = None, deps = False, fresh = 0, pushed = []\<rparr>
      in case render p initialState of
           Inl e \<Rightarrow> w0
         | Inr v \<Rightarrow> effect (w0\<lparr>mounted := True\<rparr>))"

text \<open>
  What can happen to a mounted component: a click on the trigger, typing into the
  search field, a click on an item, a \<^verbatim>\<open>mousedown\<close> somewhere in the document (with
  the nodes the container holds at that moment, and the target), new props or a new
  pathname from the parent, and the removal of the component.
\<close>

datatype Event =
    ClickTrigger
  | TypeSearch string
  | ClickItem string
  | Mousedown "nat set" nat
  | Rerender LanguageSwitcherProps string
  | Unmount

text \<open>
  The document calls every listener registered for \<^verbatim>\<open>mousedown\<close>, in order. One step
  is an event together with the state updates of its handlers, the render and the run
  of the effect that follow: the updates of one event are applied together, and the
  effect of an update made in an input event is run before the next event is handled.
\<close>

definition dispatchMousedown :: "nat set option \<Rightarrow> nat \<Rightarrow> nat list \<Rightarrow> SwitcherState \<Rightarrow> SwitcherState" where
  "dispatchMousedown ref target ls s = fold (\<lambda>l. handleClickOutside ref target) ls s"

fun step :: "World \<Rightarrow> Event \<Rightarrow> World" where
  "step w (Mousedown el target) =
     (let s' = dispatchMousedown (if mounted w then Some el else None) target
                 (listeners w) (state w)
      in if mounted w then commit (w\<lparr>state := s'\<rparr>) else w\<lparr>state := s'\<rparr>)"
| "step w ClickTrigger =
     (if mounted w
      then commit (w\<lparr>state := onToggle (SwitcherState.isOpen (state w)) (state w)\<rparr>)
      else w)"
| "step w (TypeSearch v) =
     (if mounted w then commit (w\<lparr>state := onSearch v (state w)\<rparr>) else w)"
| "step w (ClickItem c) =
     (if mounted w
      then (case onSelect (props w) (pathname w) c (state w) of
              (s', None) \<Rightarrow> commit (w\<lparr>state := s'\<rparr>)
            | (s', Some path) \<Rightarrow> commit (w\<lparr>state := s', pushed := pushed w @ [path]\<rparr>))
      else w)"
| "step w (Rerender p path) =
     (if mounted w then commit (w\<lparr>props := p, pathname := path\<rparr>) else w)"
| "step w Unmount = (if mounted w then unmount w else w)"

definition run :: "LanguageSwitcherProps \<Rightarrow> string \<Rightarrow> Event list \<Rightarrow> World" where
  "run p path evs = foldl step (mount p path) evs"

section \<open>The specification's words\<close>

text \<open>
  The three ways a configuration fails validation, whether its current locale is a name
  that every ordinary object inherits, and the search value a configuration stands for
  (the empty string when it gives none).
\<close>

definition localesMissingOrEmpty :: "LanguageSwitcherConfig \<Rightarrow> bool" where
  "localesMissingOrEmpty c =
     (case LanguageSwitcherConfig.locales c of None \<Rightarrow> True | Some ls \<Rightarrow> Object_keys ls = [])"

definition currentLocaleMissingOrEmpty :: "LanguageSwitcherConfig \<Rightarrow> bool" where
  "currentLocaleMissingOrEmpty c =
     (case LanguageSwitcherConfig.currentLocale c of None \<Rightarrow> True | Some cur \<Rightarrow> cur = [])"

definition currentLocaleIsKey :: "LanguageSwitcherConfig \<Rightarrow> bool" where
  "currentLocaleIsKey c =
     (case LanguageSwitcherConfig.locales c of
        None \<Rightarrow> False
      | Some ls \<Rightarrow>
          (case LanguageSwitcherConfig.currentLocale c of
             None \<Rightarrow> False
           | Some cur \<Rightarrow> cur \<in> set (Object_keys ls)))"

definition currentLocaleInherited :: "LanguageSwitcherConfig \<Rightarrow> bool" where
  "currentLocaleInherited c =
     (case LanguageSwitcherConfig.currentLocale c of
        None \<Rightarrow> False
      | Some cur \<Rightarrow> Object_prototype cur \<noteq> None)"

definition searchOf :: "LanguageSwitcherConfig \<Rightarrow> string" where
  "searchOf c = (case LanguageSwitcherConfig.searchValue c of None \<Rightarrow> [] | Some s \<Rightarrow> s)"



definition displayName :: "LocaleData \<Rightarrow> string" where
  "displayName d = (if nativeName d = [] then name d else nativeName d)"

text \<open>
  The segments of a path, the rewrite of the segments as the specification words it,
  and the state after closing the dropdown and clearing the search value.
\<close>

definition pathSegments :: "string \<Rightarrow> string list" where
  "pathSegments path = filter (\<lambda>seg. seg \<noteq> []) (split CHR ''/'' path)"

definition withLocale :: "string list \<Rightarrow> string list \<Rightarrow> string \<Rightarrow> string list" where
  "withLocale keys segs c =
     (case segs of
        [] \<Rightarrow> [c]
      | seg # rest \<Rightarrow> if seg \<in> set keys then c # rest else c # seg # rest)"

definition closed :: "SwitcherState" where
  "closed = \<lparr>isOpen = False, searchValue = []\<rparr>"

text \<open>
  Two invariants of the effect: what holds of the listeners between events, and what
  holds when a render is due (the effect has last run with \<open>deps\<close>).
\<close>

definition listenerInv :: "World \<Rightarrow> bool" where
  "listenerInv w =
     (listeners w = (case cleanup w of None \<Rightarrow> [] | Some l \<Rightarrow> [l]) \<and>
      (cleanup w \<noteq> None) = (mounted w \<and> SwitcherState.isOpen (state w)) \<and>
      (if mounted w then deps w = SwitcherState.isOpen (state w) else True))"

definition effectInv :: "World \<Rightarrow> bool" where
  "effectInv w =
     (listeners w = (case cleanup w of None \<Rightarrow> [] | Some l \<Rightarrow> [l]) \<and>
      (cleanup w \<noteq> None) = deps w \<and> mounted w)"

section \<open>Example data\<close>

definition exLocales :: "LocaleData Record" where
  "exLocales =
     [(''en'', \<lparr>name = ''English'', nativeName = ''English'', flag = ''GB'', rtl = False,
               dateFormat = ''MM/dd/yyyy'', numberFormat = ''en-US''\<rparr>),
      (''vi'', \<lparr>name = ''Vietnamese'', nativeName = ''Tieng Viet'', flag = ''VN'', rtl = False,
               dateFormat = ''dd/MM/yyyy'', numberFormat = ''vi-VN''\<rparr>),
      (''ar'', \<lparr>name = ''Arabic'', nativeName = [], flag = ''SA'', rtl = True,
               dateFormat = ''dd/MM/yyyy'', numberFormat = ''ar-SA''\<rparr>)]"

definition exConfig :: "string \<Rightarrow> string \<Rightarrow> LanguageSwitcherConfig" where
  "exConfig cur sv =
     \<lparr>LanguageSwitcherConfig.locales = Some exLocales,
      LanguageSwitcherConfig.currentLocale = Some cur,
      LanguageSwitcherConfig.searchValue = Some sv,
      LanguageSwitcherConfig.isOpen = Some True,
      LanguageSwitcherConfig.triggerLabel = None,
      LanguageSwitcherConfig.searchPlaceholder = None\<rparr>"

definition exProps :: LanguageSwitcherProps where
  "exProps = \<lparr>LanguageSwitcherProps.locales = exLocales,
              LanguageSwitcherProps.currentLocale = ''en'',
              className = None\<rparr>"

definition noGlobals :: Globals where
  "noGlobals = \<lparr>window = None, document = None, navigator = None\<rparr>"

definition exGlobals :: Globals where
  "exGlobals =
     \<lparr>window = Some \<lparr>innerWidth = 390, innerHeight = 844\<rparr>,
      document = Some \<lparr>documentElement = \<lparr>has_ontouchstart = True, has_onpointerdown = True\<rparr>\<rparr>,
      navigator = Some \<lparr>userAgent = ''Mozilla/5.0 (Linux; Android 14) Chrome/120.0 Mobile Safari/537.36'',
                        maxTouchPoints = 5, platform = ''Linux armv8l''\<rparr>\<rparr>"

section \<open>Properties of the string operations\<close>



lemma str_includes_empty: "str_includes s []"
  by (induction s) auto


lemma split_not_Nil: "split sep s \<noteq> []"
  by (induction s) (auto split: list.splits)

lemma join_Cons: "join sep (x # xs) = x @ concat (map (\<lambda>y. sep @ y) xs)"
  by (induction xs arbitrary: x) auto

lemma join_split: "join [sep] (split sep s) = s"
proof (induction s)
  case Nil
  then show ?case by simp
next
  case (Cons c cs)
  obtain p ps where sp: "split sep cs = p # ps"
    using split_not_Nil [of sep cs] by (cases "split sep cs") auto
  with Cons show ?case by (auto simp: join_Cons)
qed

lemma split_no_sep: "p \<in> set (split sep s) \<Longrightarrow> sep \<notin> set p"
proof (induction s arbitrary: p)
  case Nil
  then show ?case by simp
next
  case (Cons c cs)
  obtain q qs where sp: "split sep cs = q # qs"
    using split_not_Nil [of sep cs] by (cases "split sep cs") auto
  from Cons.prems sp Cons.IH show ?case
    by (auto split: if_splits)
qed

section \<open>Properties of the contract\<close>

subsection \<open>Property reads\<close>

lemma prop_get_Own_iff: "(\<exists>v. prop_get r k = Own v) \<longleftrightarrow> k \<in> set (Object_keys r)"
proof (cases "map_of r k")
  case None
  then have "k \<notin> set (Object_keys r)"
    by (simp add: Object_keys_def map_of_eq_None_iff)
  with None show ?thesis
    by (simp add: prop_get_def split: option.splits)
next
  case (Some v)
  then have "k \<in> set (Object_keys r)"
    using map_of_eq_None_iff [of r k] by (simp add: Object_keys_def)
  with Some show ?thesis
    by (simp add: prop_get_def)
qed

lemma prop_get_Undefined_iff:
  "prop_get r k = Undefined \<longleftrightarrow> k \<notin> set (Object_keys r) \<and> Object_prototype k = None"
proof (cases "map_of r k")
  case None
  then have "k \<notin> set (Object_keys r)"
    by (simp add: Object_keys_def map_of_eq_None_iff)
  with None show ?thesis
    by (simp add: prop_get_def split: option.splits)
next
  case (Some v)
  then have "k \<in> set (Object_keys r)"
    using map_of_eq_None_iff [of r k] by (simp add: Object_keys_def)
  with Some show ?thesis
    by (simp add: prop_get_def)
qed

subsection \<open>The outcomes of \<^verbatim>\<open>buildLanguageView\<close>\<close>

lemma buildLanguageViewWith_no_locales:
  "LanguageSwitcherConfig.locales c = None \<Longrightarrow>
   buildLanguageViewWith lower c = Inl (Error ''Locales configuration is required and cannot be empty'')"
  by (simp add: buildLanguageViewWith_def Let_def)

lemma buildLanguageViewWith_empty_locales:
  "LanguageSwitcherConfig.locales c = Some [] \<Longrightarrow>
   buildLanguageViewWith lower c = Inl (Error ''Locales configuration is required and cannot be empty'')"
  by (simp add: buildLanguageViewWith_def Let_def Object_keys_def)

lemma buildLanguageViewWith_no_current:
  "LanguageSwitcherConfig.locales c = Some ls \<Longrightarrow> ls \<noteq> [] \<Longrightarrow>
   LanguageSwitcherConfig.currentLocale c = None \<or> LanguageSwitcherConfig.currentLocale c = Some [] \<Longrightarrow>
   buildLanguageViewWith lower c = Inl (Error ''Current locale is required'')"
  by (auto simp: buildLanguageViewWith_def Let_def Object_keys_def)

lemma buildLanguageViewWith_unknown:
  "LanguageSwitcherConfig.locales c = Some ls \<Longrightarrow> ls \<noteq> [] \<Longrightarrow>
   LanguageSwitcherConfig.currentLocale c = Some cur \<Longrightarrow> cur \<noteq> [] \<Longrightarrow>
   prop_get ls cur = Undefined \<Longrightarrow>
   buildLanguageViewWith lower c =
     Inl (Error (''Current locale \"'' @ cur @ ''\" not found in locales configuration''))"
  by (simp add: buildLanguageViewWith_def Let_def Object_keys_def)

lemma buildLanguageViewWith_ok:
  "LanguageSwitcherConfig.locales c = Some ls \<Longrightarrow> ls \<noteq> [] \<Longrightarrow>
   LanguageSwitcherConfig.currentLocale c = Some cur \<Longrightarrow> cur \<noteq> [] \<Longrightarrow>
   prop_get ls cur \<noteq> Undefined \<Longrightarrow>
   \<exists>tr se. buildLanguageViewWith lower c =
     Inr \<lparr>trigger = tr, search = se, items = map (toItem cur) ls,
          filteredItems = (if searchOf c \<noteq> [] then filter (matchesSearch lower (searchOf c)) (map (toItem cur) ls)
                           else map (toItem cur) ls)\<rparr> \<and>
     Trigger.label tr = or_undefined (read_nativeName (prop_get ls cur)) (read_name (prop_get ls cur)) \<and>
     Trigger.flag tr = read_flag (prop_get ls cur) \<and>
     Search.value se = searchOf c"
  by (simp add: buildLanguageViewWith_def Let_def Object_keys_def Object_entries_def searchOf_def)

text \<open>
  When the function throws: validation as the specification words it, except that a
  current locale which is a name every object inherits is let through.
\<close>

lemma buildLanguageViewWith_Inl_iff:
  "isl (buildLanguageViewWith lower c) \<longleftrightarrow>
     localesMissingOrEmpty c \<or> currentLocaleMissingOrEmpty c \<or>
     (\<not> currentLocaleIsKey c \<and> \<not> currentLocaleInherited c)"
proof (cases "LanguageSwitcherConfig.locales c")
  case None
  then show ?thesis
    by (simp add: buildLanguageViewWith_no_locales localesMissingOrEmpty_def)
next
  case (Some ls)
  note ls = this
  show ?thesis
  proof (cases "ls = []")
    case True
    with ls show ?thesis
      by (simp add: buildLanguageViewWith_empty_locales localesMissingOrEmpty_def Object_keys_def)
  next
    case False
    note ne = this
    show ?thesis
    proof (cases "LanguageSwitcherConfig.currentLocale c")
      case None
      with ls ne show ?thesis
        by (simp add: buildLanguageViewWith_no_current currentLocaleMissingOrEmpty_def)
    next
      case (Some cur)
      note cur = this
      show ?thesis
      proof (cases "cur = []")
        case True
        with ls ne cur show ?thesis
          by (simp add: buildLanguageViewWith_no_current currentLocaleMissingOrEmpty_def)
      next
        case False
        note cne = this
        have valid: "\<not> localesMissingOrEmpty c" "\<not> currentLocaleMissingOrEmpty c"
          using ls ne cur cne
          by (simp_all add: localesMissingOrEmpty_def currentLocaleMissingOrEmpty_def
                Object_keys_def)
        have key: "currentLocaleIsKey c \<longleftrightarrow> cur \<in> set (Object_keys ls)"
          using ls cur by (simp add: currentLocaleIsKey_def)
        have inh: "currentLocaleInherited c \<longleftrightarrow> Object_prototype cur \<noteq> None"
          using cur by (simp add: currentLocaleInherited_def)
        show ?thesis
        proof (cases "prop_get ls cur = Undefined")
          case True
          with ls ne cur cne have "isl (buildLanguageViewWith lower c)"
            by (simp add: buildLanguageViewWith_unknown)
          moreover from True have "\<not> currentLocaleIsKey c \<and> \<not> currentLocaleInherited c"
            by (simp add: key inh prop_get_Undefined_iff)
          ultimately show ?thesis by simp
        next
          case False
          from buildLanguageViewWith_ok [OF ls ne cur cne False, where lower = lower]
          have "\<not> isl (buildLanguageViewWith lower c)" by auto
          moreover from False have "currentLocaleIsKey c \<or> currentLocaleInherited c"
            by (auto simp: key inh prop_get_Undefined_iff)
          ultimately show ?thesis using valid by auto
        qed
      qed
    qed
  qed
qed

lemma buildLanguageViewWith_accepted:
  assumes "buildLanguageViewWith lower c = Inr v"
  obtains ls cur where
    "LanguageSwitcherConfig.locales c = Some ls" "ls \<noteq> []"
    "LanguageSwitcherConfig.currentLocale c = Some cur" "cur \<noteq> []"
    "prop_get ls cur \<noteq> Undefined"
proof -
  from assms have ni: "\<not> isl (buildLanguageViewWith lower c)" by simp
  then have a: "\<not> localesMissingOrEmpty c" and b: "\<not> currentLocaleMissingOrEmpty c"
    and k: "currentLocaleIsKey c \<or> currentLocaleInherited c"
    by (auto simp: buildLanguageViewWith_Inl_iff)
  from a obtain ls where ls: "LanguageSwitcherConfig.locales c = Some ls" "ls \<noteq> []"
    by (auto simp: localesMissingOrEmpty_def Object_keys_def split: option.splits)
  from b obtain cur where cur: "LanguageSwitcherConfig.currentLocale c = Some cur" "cur \<noteq> []"
    by (auto simp: currentLocaleMissingOrEmpty_def split: option.splits)
  from k ls cur have "cur \<in> set (Object_keys ls) \<or> Object_prototype cur \<noteq> None"
    by (simp add: currentLocaleIsKey_def currentLocaleInherited_def)
  then have "prop_get ls cur \<noteq> Undefined"
    by (auto simp: prop_get_Undefined_iff)
  with ls cur show thesis by (rule that)
qed

text \<open>
  In full: the function throws exactly when the locales record is missing or empty, the
  current locale is missing or empty, or the current locale is neither a key of the
  locales record nor a name inherited from the object prototype. Every other
  configuration gives a view.
\<close>

lemma buildLanguageView_throws_iff:
  "((\<exists>e. buildLanguageView c = Inl e) \<longleftrightarrow>
      localesMissingOrEmpty c \<or> currentLocaleMissingOrEmpty c \<or>
      (\<not> currentLocaleIsKey c \<and> \<not> currentLocaleInherited c)) \<and>
   ((\<exists>v. buildLanguageView c = Inr v) \<longleftrightarrow>
      \<not> localesMissingOrEmpty c \<and> \<not> currentLocaleMissingOrEmpty c \<and>
      (currentLocaleIsKey c \<or> currentLocaleInherited c))"
proof -
  have l: "(\<exists>e. buildLanguageViewWith toLowerCase c = Inl e) \<longleftrightarrow>
             isl (buildLanguageViewWith toLowerCase c)"
    by (cases "buildLanguageViewWith toLowerCase c") auto
  have r: "(\<exists>v. buildLanguageViewWith toLowerCase c = Inr v) \<longleftrightarrow>
             \<not> isl (buildLanguageViewWith toLowerCase c)"
    by (cases "buildLanguageViewWith toLowerCase c") auto
  show ?thesis
    unfolding buildLanguageView_def l r buildLanguageViewWith_Inl_iff by blast
qed

text \<open>
  Claim C1. \<^verbatim>\<open>buildLanguageView\<close> is to throw when the current locale is not a key of
  the locales record. For the current locale \<^verbatim>\<open>toString\<close>, which is not a key of the
  example record, the read \<^verbatim>\<open>locales[currentLocale]\<close> finds the built-in function of
  that name, the test for absence passes, and the function returns a view: its trigger
  is labelled with the name of the built-in function and has no flag.
\<close>

theorem buildLanguageView_inherited_name_accepted:
  "\<not> currentLocaleIsKey (exConfig ''toString'' []) \<and>
   (\<exists>v. buildLanguageView (exConfig ''toString'' []) = Inr v \<and>
        Trigger.label (trigger v) = Some ''toString'' \<and>
        Trigger.flag (trigger v) = None)"
  by (simp add: buildLanguageView_def buildLanguageViewWith_def exConfig_def exLocales_def Let_def Object_keys_def
        Object_entries_def prop_get_def Object_prototype_def currentLocaleIsKey_def
        or_undefined_def read_nativeName_def read_name_def read_flag_def)

subsection \<open>The filtered items\<close>






subsection \<open>The items and the trigger\<close>

lemma or_else_displayName: "or_else (nativeName d) (name d) = displayName d"
  by (simp add: or_else_def displayName_def)

lemma code_toItem: "code (toItem cur e) = fst e"
  by (cases e) (simp add: toItem_def)

lemma label_toItem: "LanguageItem.label (toItem cur e) = displayName (snd e)"
  by (cases e) (simp add: toItem_def or_else_displayName)

lemma flag_toItem: "LanguageItem.flag (toItem cur e) = LocaleData.flag (snd e)"
  by (cases e) (simp add: toItem_def)

lemma isActive_toItem: "isActive (toItem cur e) = (fst e = cur)"
  by (cases e) (simp add: toItem_def)

lemma distinct_unique_index:
  assumes "distinct ks" and "k \<in> set ks"
  shows "\<exists>!i. i < length ks \<and> ks ! i = k"
proof -
  from assms(2) obtain i where i: "i < length ks" "ks ! i = k"
    by (auto simp: in_set_conv_nth)
  show ?thesis
  proof (rule ex1I [of _ i])
    show "i < length ks \<and> ks ! i = k" using i by simp
  next
    fix j assume "j < length ks \<and> ks ! j = k"
    then show "j = i"
      using i nth_eq_iff_index_eq [OF assms(1), of j i] by auto
  qed
qed

text \<open>
  Where the current locale is a key of the locales record, the view is as intended: it
  has one item per key, in the record's order; exactly one item
  is active, and an item is active exactly when its code is the current locale; the
  label of an item is the native name of its locale, or the name when the native name
  is empty; and the trigger shows the label and the flag of the current locale's data.
\<close>

lemma buildLanguageView_view_own_key:
  assumes acc: "buildLanguageView c = Inr v"
    and ls: "LanguageSwitcherConfig.locales c = Some ls"
    and cur: "LanguageSwitcherConfig.currentLocale c = Some cur"
    and wf: "wf_Record ls"
    and key: "cur \<in> set (Object_keys ls)"
  shows "map code (items v) = Object_keys ls \<and>
         (\<exists>!i. i < length (items v) \<and> isActive (items v ! i)) \<and>
         (\<forall>i < length (items v). isActive (items v ! i) = (code (items v ! i) = cur)) \<and>
         (\<forall>i < length (items v).
            LanguageItem.label (items v ! i) = displayName (snd (Object_entries ls ! i))) \<and>
         (\<exists>d. prop_get ls cur = Own d \<and>
              Trigger.label (trigger v) = Some (displayName d) \<and>
              Trigger.flag (trigger v) = Some (LocaleData.flag d))"
proof -
  from acc have acc': "buildLanguageViewWith toLowerCase c = Inr v"
    by (simp add: buildLanguageView_def)
  then obtain ls' cur' where
    h: "LanguageSwitcherConfig.locales c = Some ls'" "ls' \<noteq> []"
       "LanguageSwitcherConfig.currentLocale c = Some cur'" "cur' \<noteq> []"
       "prop_get ls' cur' \<noteq> Undefined"
    by (rule buildLanguageViewWith_accepted)
  from h ls cur have e: "ls' = ls" "cur' = cur" by simp_all
  from key obtain d where d: "prop_get ls cur = Own d"
    using prop_get_Own_iff [of ls cur] by blast
  from buildLanguageViewWith_ok [OF h, where lower = toLowerCase] acc' e d
  have it: "items v = map (toItem cur) ls"
    and tl: "Trigger.label (trigger v) = Some (displayName d)"
    and tf: "Trigger.flag (trigger v) = Some (LocaleData.flag d)"
    by (auto simp: or_undefined_def read_nativeName_def read_name_def read_flag_def
          displayName_def)
  have keys: "map code (items v) = Object_keys ls"
    by (simp add: it Object_keys_def code_toItem cong: map_cong)
  have len: "length (items v) = length ls" by (simp add: it)
  have act: "isActive (items v ! i) = (map fst ls ! i = cur)" if "i < length ls" for i
    using that by (simp add: it isActive_toItem)
  from key have "cur \<in> set (map fst ls)"
    by (simp add: Object_keys_def)
  with wf have "\<exists>!i. i < length (map fst ls) \<and> map fst ls ! i = cur"
    by (intro distinct_unique_index) (simp_all add: wf_Record_def)
  then have one: "\<exists>!i. i < length (items v) \<and> isActive (items v ! i)"
    using act len by (metis length_map)
  have each: "\<forall>i < length (items v). isActive (items v ! i) = (code (items v ! i) = cur)"
    by (simp add: it isActive_toItem code_toItem)
  have lab: "\<forall>i < length (items v).
           LanguageItem.label (items v ! i) = displayName (snd (Object_entries ls ! i))"
    by (simp add: it label_toItem Object_entries_def)
  have trig: "\<exists>d. prop_get ls cur = Own d \<and>
             Trigger.label (trigger v) = Some (displayName d) \<and>
             Trigger.flag (trigger v) = Some (LocaleData.flag d)"
    using d tl tf by simp
  from keys one each lab trig show ?thesis by (intro conjI)
qed

lemma buildLanguageView_view_example:
  "\<exists>v. buildLanguageView (exConfig ''ar'' ''EN'') = Inr v \<and>
       wf_Record exLocales \<and>
       map code (items v) = [''en'', ''vi'', ''ar''] \<and>
       map isActive (items v) = [False, False, True] \<and>
       (\<exists>!i. i < length (items v) \<and> isActive (items v ! i)) \<and>
       Trigger.label (trigger v) = Some ''Arabic'' \<and> Trigger.flag (trigger v) = Some ''SA''"
proof -
  obtain v where v: "buildLanguageView (exConfig ''ar'' ''EN'') = Inr v"
    and a: "map isActive (items v) = [False, False, True]"
    and t: "Trigger.label (trigger v) = Some ''Arabic''" "Trigger.flag (trigger v) = Some ''SA''"
    by (simp add: buildLanguageView_def buildLanguageViewWith_def exConfig_def exLocales_def Let_def Object_keys_def
          Object_entries_def prop_get_def toItem_def or_else_def or_undefined_def
          read_nativeName_def read_name_def read_flag_def)
  have wf: "wf_Record exLocales"
    by (simp add: wf_Record_def exLocales_def)
  have ls: "LanguageSwitcherConfig.locales (exConfig ''ar'' ''EN'') = Some exLocales"
    and cur: "LanguageSwitcherConfig.currentLocale (exConfig ''ar'' ''EN'') = Some ''ar''"
    by (simp_all add: exConfig_def)
  have key: "''ar'' \<in> set (Object_keys exLocales)"
    by (simp add: Object_keys_def exLocales_def)
  from buildLanguageView_view_own_key [OF v ls cur wf key]
  have k: "map code (items v) = [''en'', ''vi'', ''ar'']"
    and u: "\<exists>!i. i < length (items v) \<and> isActive (items v ! i)"
    by (simp_all add: Object_keys_def exLocales_def)
  show ?thesis
    by (rule exI [of _ v]) (intro conjI v wf k a u t)
qed

text \<open>
  Claim C8. Every accepted configuration is to give a view with exactly one active
  item, the one of the current locale, and a trigger that shows the label and the flag
  of the current locale's data. The configuration with the current locale
  \<^verbatim>\<open>toString\<close> is accepted, and its view has no active item and a trigger without a
  flag, labelled with the name of a built-in function.
\<close>

theorem buildLanguageView_inherited_name_view:
  "wf_Record exLocales \<and>
   (\<exists>v. buildLanguageView (exConfig ''toString'' []) = Inr v \<and>
        map code (items v) = [''en'', ''vi'', ''ar''] \<and>
        map isActive (items v) = [False, False, False] \<and>
        Trigger.label (trigger v) = Some ''toString'' \<and>
        Trigger.flag (trigger v) = None)"
  by (simp add: buildLanguageView_def buildLanguageViewWith_def exConfig_def exLocales_def Let_def Object_keys_def
        Object_entries_def prop_get_def Object_prototype_def toItem_def or_else_def
        or_undefined_def read_nativeName_def read_name_def read_flag_def wf_Record_def)

section \<open>Properties of the environment helpers\<close>

lemma try_catch_total:
  "(\<And>e. \<exists>v. handler e = Inr v) \<Longrightarrow> \<exists>v. try_catch body handler = Inr v"
  by (cases body) (simp_all add: try_catch_def)

lemma hasTouch_total: "\<exists>t. hasTouch g = Inr t"
  unfolding hasTouch_def by (simp add: try_catch_total)

lemma hasMobile_total: "\<exists>m. hasMobile g = Inr m"
  unfolding hasMobile_def by (simp add: try_catch_total)

lemma isUserAgent_total: "\<exists>b. isUserAgent g agent = Inr b"
  unfolding isUserAgent_def by (auto intro: try_catch_total)

lemma getUserAgent_total: "\<exists>n. getUserAgent g = Inr n"
  unfolding getUserAgent_def by (simp add: try_catch_total)

lemma hasTouch_no_navigator: "navigator g = None \<Longrightarrow> hasTouch g = Inr NoTouch"
  by (simp add: hasTouch_def try_catch_def bindE_def global_navigator_def global_document_def
        Let_def split: option.splits)

text \<open>
  Claim C6. Each helper returns its safe default, and does not throw, when the globals
  it tests are unavailable: \<^verbatim>\<open>hasTouch\<close> gives \<^verbatim>\<open>'no-touch'\<close> without \<^verbatim>\<open>window\<close> or
  \<^verbatim>\<open>document\<close>, \<^verbatim>\<open>hasMobile\<close> gives \<^verbatim>\<open>'no-mobile'\<close> without \<^verbatim>\<open>window\<close> or \<^verbatim>\<open>navigator\<close>,
  and without \<^verbatim>\<open>navigator\<close> \<^verbatim>\<open>isUserAgent\<close> gives \<^verbatim>\<open>false\<close> and \<^verbatim>\<open>getUserAgent\<close> gives
  \<^verbatim>\<open>'Unknown'\<close>.
\<close>

theorem safe_defaults:
  "(window g = None \<or> document g = None \<longrightarrow> hasTouch g = Inr NoTouch) \<and>
   (window g = None \<or> navigator g = None \<longrightarrow> hasMobile g = Inr NoMobile) \<and>
   (navigator g = None \<longrightarrow> isUserAgent g agent = Inr False) \<and>
   (navigator g = None \<longrightarrow> getUserAgent g = Inr Unknown)"
  by (simp add: hasTouch_def hasMobile_def isUserAgent_def getUserAgent_def)

theorem safe_defaults_witness:
  "hasTouch noGlobals = Inr NoTouch \<and>
   hasMobile (exGlobals\<lparr>navigator := None\<rparr>) = Inr NoMobile \<and>
   isUserAgent (exGlobals\<lparr>navigator := None\<rparr>) ''chrome'' = Inr False \<and>
   getUserAgent noGlobals = Inr Unknown"
  using safe_defaults [of noGlobals "''chrome''"]
        safe_defaults [of "exGlobals\<lparr>navigator := None\<rparr>" "''chrome''"]
  by (simp add: noGlobals_def exGlobals_def)

lemma exGlobals_values:
  "hasTouch exGlobals = Inr HasTouch \<and> hasMobile exGlobals = Inr HasMobile \<and>
   getUserAgent exGlobals = Inr Chrome \<and> isUserAgent exGlobals ''CHROME'' = Inr True"
  by (simp add: exGlobals_def hasTouch_def hasMobile_def getUserAgent_def isUserAgent_def
        try_catch_def bindE_def global_navigator_def global_document_def global_window_def
        mobileRegex_test_def includes_ci_def toLowerCase_def lowerChar_def)

section \<open>Properties of the component\<close>

subsection \<open>The rewrite of the path\<close>

lemma close_and_clear:
  "s\<lparr>SwitcherState.isOpen := False, SwitcherState.searchValue := []\<rparr> = closed"
  by (simp add: closed_def)

lemma rewriteSegments_withLocale:
  "rewriteSegments ls path c = withLocale (Object_keys ls) (pathSegments path) c"
  by (cases "pathSegments path")
     (simp_all add: rewriteSegments_def withLocale_def pathSegments_def Let_def)

lemma withLocale_Cons: "\<exists>rest. withLocale keys segs c = c # rest"
  by (cases segs) (simp_all add: withLocale_def)

lemma pathSegments_nonempty: "seg \<in> set (pathSegments path) \<Longrightarrow> seg \<noteq> []"
  by (simp add: pathSegments_def)

lemma pathSegments_no_slash: "seg \<in> set (pathSegments path) \<Longrightarrow> CHR ''/'' \<notin> set seg"
  by (auto simp: pathSegments_def dest: split_no_sep)

text \<open>
  Claim C3. When a language other than the current one is selected, the pathname is
  split at \<^verbatim>\<open>/\<close> and the empty segments are dropped; a first segment that is a key of
  the locales record is replaced by the selected code, otherwise the code is put in
  front; the path that is navigated to is \<^verbatim>\<open>/\<close> followed by the segments joined with
  \<^verbatim>\<open>/\<close>.
\<close>

theorem onSelect_rewrites_path:
  assumes "c \<noteq> LanguageSwitcherProps.currentLocale p"
  shows "snd (onSelect p path c s) =
           Some (''/'' @ join ''/''
                   (withLocale (Object_keys (LanguageSwitcherProps.locales p)) (pathSegments path) c))"
proof -
  from withLocale_Cons [of "Object_keys (LanguageSwitcherProps.locales p)" "pathSegments path" c]
  obtain rest where
    r: "withLocale (Object_keys (LanguageSwitcherProps.locales p)) (pathSegments path) c = c # rest"
    by (rule exE)
  from assms show ?thesis
    by (simp add: onSelect_def newPath_def Let_def rewriteSegments_withLocale r)
qed

theorem onSelect_rewrites_path_witness:
  "snd (onSelect exProps ''/en/about//team/'' ''vi'' initialState) = Some ''/vi/about/team'' \<and>
   snd (onSelect exProps ''/blog/post'' ''vi'' initialState) = Some ''/vi/blog/post'' \<and>
   snd (onSelect exProps ''/'' ''vi'' initialState) = Some ''/vi''"
  using onSelect_rewrites_path [of "''vi''" exProps "''/en/about//team/''" initialState]
        onSelect_rewrites_path [of "''vi''" exProps "''/blog/post''" initialState]
        onSelect_rewrites_path [of "''vi''" exProps "''/''" initialState]
  by (simp add: exProps_def exLocales_def Object_keys_def withLocale_def pathSegments_def)

lemma split_append_sep: "split sep (a @ sep # b) = split sep a @ split sep b"
proof (induction a)
  case Nil
  then show ?case by simp
next
  case (Cons x xs)
  obtain q qs where "split sep xs = q # qs"
    using split_not_Nil [of sep xs] by (cases "split sep xs") auto
  with Cons show ?case by simp
qed

lemma split_no_sep_id: "sep \<notin> set s \<Longrightarrow> split sep s = [s]"
  by (induction s) auto

lemma pathSegments_slash_code:
  assumes "c \<noteq> []" and "CHR ''/'' \<notin> set c"
  shows "\<exists>more. pathSegments (''/'' @ c @ concat (map (\<lambda>seg. ''/'' @ seg) rest)) = c # more"
proof (cases rest)
  case Nil
  with assms show ?thesis
    by (simp add: pathSegments_def split_no_sep_id)
next
  case (Cons r rs)
  define u where "u = r @ concat (map (\<lambda>seg. ''/'' @ seg) rs)"
  have "''/'' @ c @ concat (map (\<lambda>seg. ''/'' @ seg) rest) = CHR ''/'' # (c @ CHR ''/'' # u)"
    by (simp add: Cons u_def)
  then have "split CHR ''/'' (''/'' @ c @ concat (map (\<lambda>seg. ''/'' @ seg) rest)) =
             [] # c # split CHR ''/'' u"
    using assms(2) by (simp add: split_append_sep split_no_sep_id)
  with assms(1) show ?thesis
    by (simp add: pathSegments_def)
qed

text \<open>
  Claim C9. For every pathname and every selected code other than the current locale,
  the segments after the rewrite start with the selected code, so there is at least one
  of them and the branch for an empty segment list is never taken; the path passed to
  \<^verbatim>\<open>router.push\<close> is \<^verbatim>\<open>/\<close>, the code, and then each further segment after a \<^verbatim>\<open>/\<close>. For
  a code that is not empty and holds no \<^verbatim>\<open>/\<close>, the code is the first segment of that
  path.
\<close>

theorem pushed_path_starts_with_code:
  assumes "c \<noteq> LanguageSwitcherProps.currentLocale p"
  shows "\<exists>rest. rewriteSegments (LanguageSwitcherProps.locales p) path c = c # rest \<and>
           0 < length (rewriteSegments (LanguageSwitcherProps.locales p) path c) \<and>
           snd (onSelect p path c s) = Some (''/'' @ c @ concat (map (\<lambda>seg. ''/'' @ seg) rest)) \<and>
           (c \<noteq> [] \<and> CHR ''/'' \<notin> set c \<longrightarrow>
              (\<exists>more. pathSegments (''/'' @ c @ concat (map (\<lambda>seg. ''/'' @ seg) rest)) = c # more))"
proof -
  from withLocale_Cons [of "Object_keys (LanguageSwitcherProps.locales p)" "pathSegments path" c]
  obtain rest where
    r: "rewriteSegments (LanguageSwitcherProps.locales p) path c = c # rest"
    unfolding rewriteSegments_withLocale by (rule exE)
  from assms
  have a: "snd (onSelect p path c s) = Some (''/'' @ c @ concat (map (\<lambda>seg. ''/'' @ seg) rest))"
    by (simp add: onSelect_def newPath_def Let_def r join_Cons)
  have b: "c \<noteq> [] \<and> CHR ''/'' \<notin> set c \<longrightarrow>
             (\<exists>more. pathSegments (''/'' @ c @ concat (map (\<lambda>seg. ''/'' @ seg) rest)) = c # more)"
    using pathSegments_slash_code [of c rest] by blast
  have l: "0 < length (rewriteSegments (LanguageSwitcherProps.locales p) path c)"
    by (simp add: r)
  show ?thesis
    by (rule exI [of _ rest]) (intro conjI r l a b)
qed

theorem pushed_path_starts_with_code_witness:
  "rewriteSegments exLocales ''/en/about//team/'' ''vi'' = [''vi'', ''about'', ''team''] \<and>
   snd (onSelect exProps ''/en/about//team/'' ''vi'' initialState) = Some ''/vi/about/team'' \<and>
   rewriteSegments exLocales [] ''vi'' = [''vi''] \<and>
   snd (onSelect exProps [] ''vi'' initialState) = Some ''/vi''"
  using pushed_path_starts_with_code [of "''vi''" exProps "''/en/about//team/''" initialState]
        pushed_path_starts_with_code [of "''vi''" exProps "[]" initialState]
  by (simp add: exProps_def exLocales_def rewriteSegments_def Object_keys_def Let_def
        onSelect_def newPath_def)

subsection \<open>What the effect machinery leaves alone\<close>

lemma effect_frame:
  "state (effect w) = state w \<and> pushed (effect w) = pushed w \<and>
   pathname (effect w) = pathname w \<and> props (effect w) = props w \<and>
   mounted (effect w) = mounted w"
  by (simp add: effect_def Let_def)

lemma runCleanup_frame:
  "state (runCleanup w) = state w \<and> pushed (runCleanup w) = pushed w \<and>
   pathname (runCleanup w) = pathname w \<and> props (runCleanup w) = props w \<and>
   mounted (runCleanup w) = mounted w \<and> deps (runCleanup w) = deps w"
  by (simp add: runCleanup_def split: option.splits)

lemma unmount_frame:
  "state (unmount w) = state w \<and> pushed (unmount w) = pushed w \<and>
   pathname (unmount w) = pathname w \<and> props (unmount w) = props w"
  by (simp add: unmount_def runCleanup_frame)

lemma commit_frame:
  "state (commit w) = state w \<and> pushed (commit w) = pushed w \<and>
   pathname (commit w) = pathname w \<and> props (commit w) = props w"
  by (simp add: commit_def effect_frame runCleanup_frame unmount_frame split: sum.splits)

subsection \<open>The invariant\<close>

lemma listenerInv_unmount:
  "listeners w = (case cleanup w of None \<Rightarrow> [] | Some l \<Rightarrow> [l]) \<Longrightarrow> listenerInv (unmount w)"
  by (simp add: listenerInv_def unmount_def runCleanup_def removeEventListener_def
      split: option.splits)

lemma listenerInv_effect_runCleanup:
  assumes "effectInv w"
  shows "listenerInv (effect (runCleanup w))"
  using assms
  by (auto simp: effectInv_def listenerInv_def effect_def runCleanup_def Let_def
        addEventListener_def removeEventListener_def split: option.splits)

lemma listenerInv_commit:
  assumes "effectInv w"
  shows "listenerInv (commit w)"
proof (cases "render (props w) (state w)")
  case (Inl e)
  with assms show ?thesis
    by (simp add: commit_def listenerInv_unmount effectInv_def)
next
  case (Inr v)
  show ?thesis
  proof (cases "deps w \<noteq> SwitcherState.isOpen (state w)")
    case True
    with Inr assms show ?thesis
      by (simp add: commit_def listenerInv_effect_runCleanup)
  next
    case False
    with Inr assms show ?thesis
      by (auto simp: commit_def listenerInv_def effectInv_def)
  qed
qed

lemma effectInv_update:
  "listenerInv w \<Longrightarrow> mounted w \<Longrightarrow>
   effectInv (w\<lparr>state := s\<rparr>) \<and> effectInv (w\<lparr>state := s, pushed := q\<rparr>) \<and>
   effectInv (w\<lparr>props := p, pathname := path\<rparr>)"
  by (auto simp: listenerInv_def effectInv_def)

lemma listenerInv_mount: "listenerInv (mount p path)"
  by (simp add: mount_def listenerInv_def effect_def initialState_def Let_def split: sum.splits)

lemma dispatch_no_listeners: "dispatchMousedown ref target [] s = s"
  by (simp add: dispatchMousedown_def)

lemma dispatch_one_listener:
  "dispatchMousedown ref target [l] s = handleClickOutside ref target s"
  by (simp add: dispatchMousedown_def)

lemma handleClickOutside_null: "handleClickOutside None target s = s"
  by (simp add: handleClickOutside_def)

lemma listenerInv_unmounted: "listenerInv w \<Longrightarrow> \<not> mounted w \<Longrightarrow> listeners w = []"
  by (auto simp: listenerInv_def split: option.splits)

lemma listenerInv_step:
  assumes "listenerInv w"
  shows "listenerInv (step w ev)"
proof (cases "mounted w")
  case False
  with assms listenerInv_unmounted [OF assms] have "step w ev = w"
    by (cases ev) (simp_all add: dispatch_no_listeners)
  with assms show ?thesis by simp
next
  case True
  note eu = effectInv_update [OF assms True]
  show ?thesis
  proof (cases ev)
    case ClickTrigger
    with True eu show ?thesis by (simp add: listenerInv_commit)
  next
    case (TypeSearch v)
    with True eu show ?thesis by (simp add: listenerInv_commit)
  next
    case (ClickItem c)
    with True eu show ?thesis
      by (simp add: listenerInv_commit split: prod.splits option.splits)
  next
    case (Mousedown el target)
    with True eu show ?thesis by (simp add: listenerInv_commit Let_def)
  next
    case (Rerender p path)
    with True eu show ?thesis by (simp add: listenerInv_commit)
  next
    case Unmount
    from assms have "listeners w = (case cleanup w of None \<Rightarrow> [] | Some l \<Rightarrow> [l])"
      by (simp add: listenerInv_def)
    then have "listenerInv (unmount w)" by (rule listenerInv_unmount)
    with True Unmount show ?thesis by simp
  qed
qed

lemma listenerInv_foldl: "listenerInv w \<Longrightarrow> listenerInv (foldl step w evs)"
  by (induction evs arbitrary: w) (simp_all add: listenerInv_step)

lemma listenerInv_run: "listenerInv (run p path evs)"
  unfolding run_def by (rule listenerInv_foldl) (rule listenerInv_mount)

lemma listenerInv_listeners:
  assumes "listenerInv w"
  shows "(listeners w \<noteq> []) = (mounted w \<and> SwitcherState.isOpen (state w))"
    and "length (listeners w) \<le> 1"
    and "mounted w \<Longrightarrow> SwitcherState.isOpen (state w) \<Longrightarrow> \<exists>l. listeners w = [l]"
  using assms by (auto simp: listenerInv_def split: option.splits)

text \<open>
  Claim C7. In every state the component reaches, it has a \<^verbatim>\<open>mousedown\<close> listener on
  the document exactly when it is mounted and the dropdown is open, and never more than
  one. One step is an event with the update, the render and the effect that follow it.
\<close>

theorem listener_iff_open:
  "(listeners (run p path evs) \<noteq> []) =
     (mounted (run p path evs) \<and> SwitcherState.isOpen (state (run p path evs))) \<and>
   length (listeners (run p path evs)) \<le> 1"
  using listenerInv_listeners(1,2) [OF listenerInv_run [of p path evs]] by simp

theorem listener_iff_open_witness:
  "listeners (run exProps ''/en'' [ClickTrigger]) = [1] \<and>
   listeners (run exProps ''/en'' [ClickTrigger, Mousedown {1, 2} 3]) = [] \<and>
   listeners (run exProps ''/en'' [ClickTrigger, ClickTrigger]) = [] \<and>
   listeners (run exProps ''/en'' [ClickTrigger, Unmount]) = []"
proof -
  have a: "listeners (run exProps ''/en'' [ClickTrigger]) = [1]" by code_simp
  have b: "listeners (run exProps ''/en'' [ClickTrigger, Mousedown {1, 2} 3]) = []" by code_simp
  have c: "listeners (run exProps ''/en'' [ClickTrigger, ClickTrigger]) = []" by code_simp
  have d: "listeners (run exProps ''/en'' [ClickTrigger, Unmount]) = []" by code_simp
  show ?thesis
    using listener_iff_open [of exProps "''/en''" "[ClickTrigger]"] a b c d by simp
qed

subsection \<open>Clicks outside, the trigger and the items\<close>

lemma handleClickOutside_outside:
  "target \<notin> el \<Longrightarrow> handleClickOutside (Some el) target s = closed"
  by (simp add: handleClickOutside_def contains_def closed_def)

lemma handleClickOutside_inside:
  "target \<in> el \<Longrightarrow> handleClickOutside (Some el) target s = s"
  by (simp add: handleClickOutside_def contains_def)

lemma state_step_Mousedown:
  assumes inv: "listenerInv w" and m: "mounted w" and op: "SwitcherState.isOpen (state w)"
  shows "state (step w (Mousedown el target)) = handleClickOutside (Some el) target (state w)"
proof -
  from listenerInv_listeners(3) [OF inv m op] obtain l where "listeners w = [l]" ..
  with m show ?thesis
    by (simp add: commit_frame dispatch_one_listener)
qed

text \<open>
  Claim C4. While the dropdown is open, a \<^verbatim>\<open>mousedown\<close> whose target is outside the
  container closes the dropdown and clears the search value; a \<^verbatim>\<open>mousedown\<close> inside the
  container leaves the state as it is.
\<close>

theorem mousedown_closes_outside:
  assumes "w = run p path evs" and "mounted w" and "SwitcherState.isOpen (state w)"
  shows "(target \<notin> el \<longrightarrow> state (step w (Mousedown el target)) = closed) \<and>
         (target \<in> el \<longrightarrow> state (step w (Mousedown el target)) = state w)"
proof -
  from assms(1) have "listenerInv w" by (simp add: listenerInv_run)
  from state_step_Mousedown [OF this assms(2,3)] show ?thesis
    by (simp add: handleClickOutside_outside handleClickOutside_inside)
qed

theorem mousedown_closes_outside_witness:
  "state (run exProps ''/en'' [ClickTrigger, TypeSearch ''vi'']) =
     \<lparr>isOpen = True, searchValue = ''vi''\<rparr> \<and>
   state (step (run exProps ''/en'' [ClickTrigger, TypeSearch ''vi'']) (Mousedown {1, 2} 3)) =
     \<lparr>isOpen = False, searchValue = []\<rparr> \<and>
   state (step (run exProps ''/en'' [ClickTrigger, TypeSearch ''vi'']) (Mousedown {1, 2} 2)) =
     \<lparr>isOpen = True, searchValue = ''vi''\<rparr>"
proof -
  let ?w = "run exProps ''/en'' [ClickTrigger, TypeSearch ''vi'']"
  have s: "state ?w = \<lparr>isOpen = True, searchValue = ''vi''\<rparr>" by code_simp
  have m: "mounted ?w" by code_simp
  from s have op: "SwitcherState.isOpen (state ?w)" by simp
  from mousedown_closes_outside [OF refl m op, of 3 "{1, 2}"]
  have a: "state (step ?w (Mousedown {1, 2} 3)) = \<lparr>isOpen = False, searchValue = []\<rparr>"
    by (simp add: closed_def)
  from mousedown_closes_outside [OF refl m op, of 2 "{1, 2}"] s
  have b: "state (step ?w (Mousedown {1, 2} 2)) = \<lparr>isOpen = True, searchValue = ''vi''\<rparr>"
    by simp
  from s a b show ?thesis by (intro conjI)
qed

text \<open>
  Claim C5. The trigger's handler flips \<^verbatim>\<open>isOpen\<close>: from an open state it closes and
  clears the search value, from a closed state it opens and keeps the search value. A
  click on the trigger applies the handler of the render of the current state.
\<close>

theorem onToggle_flips:
  "(SwitcherState.isOpen s \<longrightarrow>
      onToggle (SwitcherState.isOpen s) s = \<lparr>isOpen = False, searchValue = []\<rparr>) \<and>
   (\<not> SwitcherState.isOpen s \<longrightarrow>
      onToggle (SwitcherState.isOpen s) s =
        \<lparr>isOpen = True, searchValue = SwitcherState.searchValue s\<rparr>) \<and>
   (mounted w \<longrightarrow>
      state (step w ClickTrigger) = onToggle (SwitcherState.isOpen (state w)) (state w))"
  by (simp add: onToggle_def Let_def commit_frame)

theorem onToggle_flips_witness:
  "onToggle True \<lparr>isOpen = True, searchValue = ''vi''\<rparr> = \<lparr>isOpen = False, searchValue = []\<rparr> \<and>
   onToggle False \<lparr>isOpen = False, searchValue = ''vi''\<rparr> = \<lparr>isOpen = True, searchValue = ''vi''\<rparr> \<and>
   state (step (mount exProps ''/en'') ClickTrigger) = \<lparr>isOpen = True, searchValue = []\<rparr>"
proof -
  have m: "mounted (mount exProps ''/en'')" by code_simp
  have s: "state (mount exProps ''/en'') = \<lparr>isOpen = False, searchValue = []\<rparr>" by code_simp
  show ?thesis
    using onToggle_flips [of "\<lparr>isOpen = True, searchValue = ''vi''\<rparr>" "mount exProps ''/en''"]
          onToggle_flips [of "\<lparr>isOpen = False, searchValue = ''vi''\<rparr>" "mount exProps ''/en''"]
          m s
    by (simp add: onToggle_def)
qed

text \<open>
  Claim C10. Selecting the current locale closes the dropdown and clears the search
  value, and does not call \<^verbatim>\<open>router.push\<close>: the list of pushed paths and the pathname
  stay as they were.
\<close>

theorem select_current_no_navigation:
  "onSelect p path (LanguageSwitcherProps.currentLocale p) s =
     (\<lparr>isOpen = False, searchValue = []\<rparr>, None) \<and>
   (mounted w \<longrightarrow>
      state (step w (ClickItem (LanguageSwitcherProps.currentLocale (props w)))) =
        \<lparr>isOpen = False, searchValue = []\<rparr> \<and>
      pushed (step w (ClickItem (LanguageSwitcherProps.currentLocale (props w)))) = pushed w \<and>
      pathname (step w (ClickItem (LanguageSwitcherProps.currentLocale (props w)))) = pathname w)"
  by (simp add: onSelect_def commit_frame)

theorem select_current_no_navigation_witness:
  "pushed (run exProps ''/en/about'' [ClickTrigger, ClickItem ''en'']) = [] \<and>
   state (run exProps ''/en/about'' [ClickTrigger, ClickItem ''en'']) =
     \<lparr>isOpen = False, searchValue = []\<rparr> \<and>
   pushed (run exProps ''/en/about'' [ClickTrigger, ClickItem ''vi'']) = [''/vi/about'']"
proof -
  let ?w = "run exProps ''/en/about'' [ClickTrigger]"
  have m: "mounted ?w" by code_simp
  have p: "props ?w = exProps" by code_simp
  have q: "pushed ?w = []" by code_simp
  have r: "pushed (run exProps ''/en/about'' [ClickTrigger, ClickItem ''vi'']) = [''/vi/about'']"
    by code_simp
  have e: "run exProps ''/en/about'' [ClickTrigger, ClickItem ''en''] = step ?w (ClickItem ''en'')"
    by (simp add: run_def)
  have c: "LanguageSwitcherProps.currentLocale exProps = ''en''" by (simp add: exProps_def)
  from select_current_no_navigation [of exProps "''/en/about''" initialState ?w] m p q c
  have "state (step ?w (ClickItem ''en'')) = \<lparr>isOpen = False, searchValue = []\<rparr> \<and>
        pushed (step ?w (ClickItem ''en'')) = []"
    by simp
  with e r show ?thesis by simp
qed

end
